theory Spec2Isabelle
  imports Complex_Main "HOL-Library.Word"
begin

section \<open>Frames\<close>

text \<open>
  A frame is what \<^verbatim>\<open>np.array(img)\<close> gives for an RGB image: an array of shape
  \<open>(h, w, 3)\<close> of unsigned 8-bit values. It is modelled as a list of rows, each row a
  list of pixels, each pixel a triple of 8-bit words; the channel count 3 is fixed by the
  pixel type.
\<close>

type_synonym channel = "8 word"
type_synonym pixel = "channel \<times> channel \<times> channel"
type_synonym frame = "pixel list list"

definition red :: "pixel \<Rightarrow> channel" where
  "red p = fst p"

definition green :: "pixel \<Rightarrow> channel" where
  "green p = fst (snd p)"

definition blue :: "pixel \<Rightarrow> channel" where
  "blue p = snd (snd p)"

text \<open>\<^verbatim>\<open>frame.shape\<close>: the height and the length of every row.\<close>

definition height :: "'a list list \<Rightarrow> nat" where
  "height f = length f"


text \<open>\<^verbatim>\<open>frame[:, :, c]\<close>: one channel of every pixel, an array of shape \<open>(h, w)\<close>.\<close>

definition plane :: "(pixel \<Rightarrow> channel) \<Rightarrow> frame \<Rightarrow> channel list list" where
  "plane c f = map (map c) f"

text \<open>\<^verbatim>\<open>np.stack([r, g, b], axis=-1)\<close> of three arrays of shape \<open>(h, w)\<close>.\<close>

definition stack_row :: "channel list \<Rightarrow> channel list \<Rightarrow> channel list \<Rightarrow> pixel list" where
  "stack_row r g b = zip r (zip g b)"

definition np_stack :: "channel list list \<Rightarrow> channel list list \<Rightarrow> channel list list \<Rightarrow> frame" where
  "np_stack r g b = map (\<lambda>(rr, gr, br). stack_row rr gr br) (zip r (zip g b))"

section \<open>Level tables\<close>

text \<open>
  Every parameterized effect starts with \<^verbatim>\<open>level_map = {...}\<close> and
  \<^verbatim>\<open>level_map.get(level, default)\<close>. The dictionary is an association list and
  \<open>dict.get\<close> with a default is a lookup that falls back to the default.
\<close>

definition dict_get :: "(string \<times> 'a) list \<Rightarrow> string \<Rightarrow> 'a \<Rightarrow> 'a" where
  "dict_get d k dflt = (case map_of d k of None \<Rightarrow> dflt | Some v \<Rightarrow> v)"

section \<open>Exceptions\<close>

text \<open>
  The exceptions of the model. The first seven are Python's \<^verbatim>\<open>ValueError\<close>, named
  by the place that raises it: the parser's own \<^verbatim>\<open>raise\<close>, \<^verbatim>\<open>int()\<close>,
  \<^verbatim>\<open>float()\<close>, building or reshaping the array, \<^verbatim>\<open>random.randint\<close> on an empty
  range, unpacking an empty tuple, and the interpolator's bounds check.
\<close>

datatype error =
  InvalidCubeFile | BadInteger | BadFloat | BadShape | EmptyRange | EmptyTuple
  | OutOfBounds | ZeroDivisionError | FileNotFound | TypeError

section \<open>Rolling an axis\<close>

text \<open>
  \<^verbatim>\<open>np.roll(a, k, axis=1)\<close> on one row: the shift is reduced modulo the row length,
  the last \<open>k mod n\<close> elements come first and the rest follow. Elements that leave at
  one end re-enter at the other.
\<close>

definition np_roll :: "int \<Rightarrow> 'a list \<Rightarrow> 'a list" where
  "np_roll k xs =
     (let n = length xs in
      if n = 0 then xs
      else let s = nat (k mod int n) in drop (n - s) xs @ take (n - s) xs)"

section \<open>Chromatic Aberration\<close>

text \<open>
  \<^verbatim>\<open>apply_chromatic_aberration\<close> (image engine, and the per-frame function of the
  video engine, which is the same code).
\<close>

definition chromatic_level_map :: "(string \<times> int) list" where
  "chromatic_level_map = [(''low'', 3), (''medium'', 6), (''high'', 10)]"

definition chromatic_shift :: "string \<Rightarrow> int" where
  "chromatic_shift level = dict_get chromatic_level_map level 6"

definition apply_chromatic_aberration :: "frame \<Rightarrow> string \<Rightarrow> frame" where
  "apply_chromatic_aberration frame level =
     (let shift = chromatic_shift level;
          r = plane red frame; g = plane green frame; b = plane blue frame;
          r_shifted = map (np_roll (- shift)) r;
          b_shifted = map (np_roll shift) b
      in np_stack r_shifted g b_shifted)"

text \<open>One row of the result: red rolled left, green kept, blue rolled right.\<close>

definition chromatic_row :: "int \<Rightarrow> pixel list \<Rightarrow> pixel list" where
  "chromatic_row s row =
     stack_row (np_roll (- s) (map red row)) (map green row) (np_roll s (map blue row))"

text \<open>
  The property "the rightmost \<open>s\<close> columns of the red channel are black", as a test on a
  frame.
\<close>

definition rightmost_red_black :: "nat \<Rightarrow> frame \<Rightarrow> bool" where
  "rightmost_red_black s f =
     list_all (\<lambda>row. list_all (\<lambda>p. red p = 0) (drop (length row - s) row)) f"

section \<open>Invert Colors\<close>

text \<open>
  \<^verbatim>\<open>ImageOps.invert(img)\<close> maps every channel through the table
  \<open>[255, 254, ..., 0]\<close>; the video engine's \<^verbatim>\<open>vfx.invert_colors\<close> computes
  \<open>255 - frame\<close> on the 8-bit array.
\<close>

definition invert_pixel :: "pixel \<Rightarrow> pixel" where
  "invert_pixel p = (255 - red p, 255 - green p, 255 - blue p)"

definition apply_invert_colors :: "frame \<Rightarrow> frame" where
  "apply_invert_colors img = map (map invert_pixel) img"

section \<open>Casting back to 8 bits\<close>

text \<open>
  Arithmetic between a frame and a float array is done in 64-bit floats; the model uses
  real numbers, which is exact for every value the theorems below evaluate (small
  integers, halves and quotients that are 0 or 1). \<^verbatim>\<open>.astype('uint8')\<close> drops the
  fraction (towards zero). For a value outside \<open>[0, 256)\<close> the conversion has no defined
  result in numpy; the model reduces it modulo \<open>2^8\<close>, as the common builds do, and no
  theorem below rests on that.
\<close>

definition to_uint8 :: "real \<Rightarrow> channel" where
  "to_uint8 x = word_of_int (if 0 \<le> x then \<lfloor>x\<rfloor> else \<lceil>x\<rceil>)"

definition np_clip :: "real \<Rightarrow> real \<Rightarrow> real \<Rightarrow> real" where
  "np_clip x lo hi = min (max x lo) hi"

definition channel_value :: "channel \<Rightarrow> real" where
  "channel_value v = real (unat v)"

text \<open>\<^verbatim>\<open>img.size\<close> is \<open>(w, h)\<close>; the array of the image has shape \<open>(h, w, 3)\<close>.\<close>

definition img_width :: "'a list list \<Rightarrow> nat" where
  "img_width f = (case f of [] \<Rightarrow> 0 | row # _ \<Rightarrow> length row)"


section \<open>Vignette\<close>

text \<open>
  \<^verbatim>\<open>apply_vignette\<close> (both engines): the mask is computed from the size alone, then
  multiplied into every channel and cast to 8 bits. There is no clamp between the
  product and the cast.
\<close>

definition vignette_level_map :: "(string \<times> real) list" where
  "vignette_level_map = [(''low'', 1/2), (''medium'', 1), (''high'', 3/2)]"

definition vignette_strength :: "string \<Rightarrow> real" where
  "vignette_strength level = dict_get vignette_level_map level 1"

definition vignette_mask :: "real \<Rightarrow> nat \<Rightarrow> nat \<Rightarrow> nat \<Rightarrow> nat \<Rightarrow> real" where
  "vignette_mask strength w h y x =
     (let center_y = real h / 2; center_x = real w / 2;
          dist_from_center = sqrt ((real x - center_x)\<^sup>2 + (real y - center_y)\<^sup>2);
          max_dist = sqrt (center_x\<^sup>2 + center_y\<^sup>2);
          radial_grad = dist_from_center / max_dist
      in 1 - radial_grad\<^sup>2 * strength)"

definition scale_pixel :: "real \<Rightarrow> pixel \<Rightarrow> pixel" where
  "scale_pixel m p =
     (to_uint8 (channel_value (red p) * m),
      to_uint8 (channel_value (green p) * m),
      to_uint8 (channel_value (blue p) * m))"

definition apply_vignette :: "frame \<Rightarrow> string \<Rightarrow> frame" where
  "apply_vignette img level =
     (let strength = vignette_strength level;
          w = img_width img; h = length img
      in map (\<lambda>(y, row). map (\<lambda>(x, p). scale_pixel (vignette_mask strength w h y x) p)
                               (enumerate 0 row))
             (enumerate 0 img))"

section \<open>Film Grain\<close>

text \<open>
  \<^verbatim>\<open>apply_film_grain\<close>: \<^verbatim>\<open>np.random.randint(-25, 25, frame.shape)\<close> is an input of
  the model, one triple of integers per pixel position.
\<close>

definition film_grain_level_map :: "(string \<times> real) list" where
  "film_grain_level_map = [(''low'', 1), (''medium'', 3/2), (''high'', 2)]"

definition film_grain_strength :: "string \<Rightarrow> real" where
  "film_grain_strength level = dict_get film_grain_level_map level (3/2)"

definition grain_pixel :: "real \<Rightarrow> int \<times> int \<times> int \<Rightarrow> pixel \<Rightarrow> pixel" where
  "grain_pixel strength n p =
     (to_uint8 (np_clip (channel_value (red p) + real_of_int (fst n) * strength) 0 255),
      to_uint8 (np_clip (channel_value (green p) + real_of_int (fst (snd n)) * strength) 0 255),
      to_uint8 (np_clip (channel_value (blue p) + real_of_int (snd (snd n)) * strength) 0 255))"

definition apply_film_grain :: "(nat \<Rightarrow> nat \<Rightarrow> int \<times> int \<times> int) \<Rightarrow> frame \<Rightarrow> string \<Rightarrow> frame" where
  "apply_film_grain noise img level =
     (let strength = film_grain_strength level
      in map (\<lambda>(y, row). map (\<lambda>(x, p). grain_pixel strength (noise y x) p) (enumerate 0 row))
             (enumerate 0 img))"

section \<open>Glitch\<close>

text \<open>
  The values the \<^verbatim>\<open>random\<close> module returns during one call are inputs of the model.
  One attempt of the loop reads \<^verbatim>\<open>random.random()\<close> and, when the test passes,
  \<^verbatim>\<open>random.randint(0, h - glitch_height)\<close> and \<^verbatim>\<open>random.randint(-w//4, w//4)\<close>;
  the list of attempts has as many elements as \<^verbatim>\<open>random.randint(1, 5)\<close> returned.
\<close>

record attempt =
  sample :: real
  strip_y :: nat
  displacement :: int

definition black :: pixel where
  "black = (0, 0, 0)"

text \<open>
  The strip is rolled, then \<^verbatim>\<open>strip[:, :displacement] = 0\<close> when the displacement is
  positive and \<^verbatim>\<open>strip[:, displacement:] = 0\<close> otherwise; a slice that starts at
  \<open>0\<close> is the whole row.
\<close>

definition glitch_row :: "int \<Rightarrow> pixel list \<Rightarrow> pixel list" where
  "glitch_row d row =
     (let n = length row; rolled = np_roll d row in
      if d > 0 then replicate (min (nat d) n) black @ drop (nat d) rolled
      else let start = (if d < 0 then nat (int n + d) else 0)
           in take start rolled @ replicate (n - start) black)"

definition glitch_strip :: "nat \<Rightarrow> nat \<Rightarrow> int \<Rightarrow> frame \<Rightarrow> frame" where
  "glitch_strip y glitch_height d frame =
     map (\<lambda>(i, row). if y \<le> i \<and> i < y + glitch_height then glitch_row d row else row)
         (enumerate 0 frame)"

text \<open>The image engine: percentages in the table, compared with a sample of \<open>[0, 1)\<close>.\<close>

definition glitch_level_map :: "(string \<times> real) list" where
  "glitch_level_map = [(''low'', 30), (''medium'', 50), (''high'', 70)]"

definition glitch_probability :: "string \<Rightarrow> real" where
  "glitch_probability level = dict_get glitch_level_map level 50"

definition glitch_attempt :: "real \<Rightarrow> attempt \<Rightarrow> frame \<Rightarrow> error + frame" where
  "glitch_attempt probability a frame =
     (if sample a < probability then
        (let h = length frame;
             glitch_height = max 1 (h div 20)
         in if h < glitch_height then Inl EmptyRange
            else Inr (glitch_strip (strip_y a) glitch_height (displacement a) frame))
      else Inr frame)"

fun glitch_loop :: "real \<Rightarrow> attempt list \<Rightarrow> frame \<Rightarrow> error + frame" where
  "glitch_loop probability [] frame = Inr frame"
| "glitch_loop probability (a # as) frame =
     (case glitch_attempt probability a frame of
        Inl e \<Rightarrow> Inl e
      | Inr frame' \<Rightarrow> glitch_loop probability as frame')"

definition apply_glitch :: "attempt list \<Rightarrow> frame \<Rightarrow> string \<Rightarrow> error + frame" where
  "apply_glitch attempts img level = glitch_loop (glitch_probability level) attempts img"

text \<open>
  The ranges the generator keeps: a sample of \<open>[0, 1)\<close>, a strip that fits, and a
  displacement between \<^verbatim>\<open>-w//4\<close> (Python reads it as \<open>(-w)//4\<close>) and \<^verbatim>\<open>w//4\<close>.
\<close>

definition attempt_in_range :: "nat \<Rightarrow> nat \<Rightarrow> attempt \<Rightarrow> bool" where
  "attempt_in_range h w a =
     (0 \<le> sample a \<and> sample a < 1 \<and>
      strip_y a + max 1 (h div 20) \<le> h \<and>
      (- int w) div 4 \<le> displacement a \<and> displacement a \<le> int w div 4)"

text \<open>
  What the specification says of the trigger: the sample is below 0.3, 0.5 or 0.7.
\<close>

definition spec_glitch_triggers :: "string \<Rightarrow> real \<Rightarrow> bool" where
  "spec_glitch_triggers level u =
     (u < dict_get [(''low'', 3/10), (''medium'', 5/10), (''high'', 7/10)] level (5/10))"

text \<open>
  The video engine: one attempt per frame, with fractions in the table.
\<close>

definition video_glitch_level_map :: "(string \<times> real) list" where
  "video_glitch_level_map = [(''low'', 1/10), (''medium'', 2/10), (''high'', 3/10)]"

definition video_glitch_probability :: "string \<Rightarrow> real" where
  "video_glitch_probability level = dict_get video_glitch_level_map level (2/10)"

definition video_glitch_effect :: "attempt \<Rightarrow> frame \<Rightarrow> string \<Rightarrow> error + frame" where
  "video_glitch_effect a frame level =
     (if sample a < video_glitch_probability level then
        (let h = length frame;
             glitch_height = (if h div 20 = 0 then 1 else h div 20)
         in if h < glitch_height then Inl EmptyRange
            else Inr (glitch_strip (strip_y a) glitch_height (displacement a) frame))
      else Inr frame)"

section \<open>Rotate\<close>

text \<open>
  \<^verbatim>\<open>img.rotate(angle, expand=True)\<close> is the imaging library's. For 90 degrees with
  \<open>expand\<close> the library transposes the image counter-clockwise: the last column becomes
  the first row. The resampling rotation it uses for the other angles is a parameter.
\<close>

definition rotate_level_map :: "(string \<times> int) list" where
  "rotate_level_map = [(''low'', 15), (''medium'', 45), (''high'', 90)]"

definition rotate_angle :: "string \<Rightarrow> int" where
  "rotate_angle level = dict_get rotate_level_map level 90"

definition rotate_90 :: "'a list list \<Rightarrow> 'a list list" where
  "rotate_90 img = rev (transpose img)"

definition apply_rotate :: "(int \<Rightarrow> frame \<Rightarrow> frame) \<Rightarrow> frame \<Rightarrow> string \<Rightarrow> frame" where
  "apply_rotate resample_rotate img level =
     (let angle = rotate_angle level
      in if angle = 90 then rotate_90 img else resample_rotate angle img)"

text \<open>A test row: red values 1 to 8 from left to right.\<close>

definition ramp_row :: "pixel list" where
  "ramp_row = [(1, 0, 0), (2, 0, 0), (3, 0, 0), (4, 0, 0), (5, 0, 0), (6, 0, 0), (7, 0, 0), (8, 0, 0)]"

text \<open>A 2 by 2 test frame.\<close>

definition square_frame :: frame where
  "square_frame = [[(200, 100, 50), (10, 20, 30)], [(40, 50, 60), (7, 8, 9)]]"

text \<open>A rotation for the other angles that is never reached at 90 degrees.\<close>

definition no_resample :: "int \<Rightarrow> frame \<Rightarrow> frame" where
  "no_resample angle img = img"

section \<open>Reading a cube file\<close>

subsection \<open>Strings\<close>

text \<open>
  The whitespace of \<^verbatim>\<open>str.strip()\<close>, \<^verbatim>\<open>str.split()\<close> and the pattern \<^verbatim>\<open>\s\<close>,
  among the ASCII characters: tab, line feed, vertical tab, form feed, carriage return,
  the four separators 28 to 31 and the space.
\<close>

definition is_space :: "char \<Rightarrow> bool" where
  "is_space c = (of_char c \<in> {9, 10, 11, 12, 13, 28, 29, 30, 31, 32 :: nat})"

definition strip :: "string \<Rightarrow> string" where
  "strip s = rev (dropWhile is_space (rev (dropWhile is_space s)))"

definition startswith :: "string \<Rightarrow> string \<Rightarrow> bool" where
  "startswith s p = (take (length p) s = p)"

text \<open>\<^verbatim>\<open>s.split()\<close>: the maximal runs of characters that are not whitespace.\<close>

fun split_from :: "string \<Rightarrow> string \<Rightarrow> string list" where
  "split_from cur [] = (if cur = [] then [] else [rev cur])"
| "split_from cur (c # cs) =
     (if is_space c then (if cur = [] then split_from [] cs else rev cur # split_from [] cs)
      else split_from (c # cur) cs)"

definition split :: "string \<Rightarrow> string list" where
  "split s = split_from [] s"

text \<open>
  \<^verbatim>\<open>re.match(r'^[0-9eE.+-]+\s+[0-9eE.+-]+\s+[0-9eE.+-]+', line)\<close>. The two character
  classes are disjoint, so the only way to match is to take each run whole: a run of
  class characters, whitespace, a second run, whitespace, and one more class character.
  Nothing is asked of what follows.
\<close>

definition num_char :: "char \<Rightarrow> bool" where
  "num_char c = (c \<in> set ''0123456789eE.+-'')"

definition row_pattern_matches :: "string \<Rightarrow> bool" where
  "row_pattern_matches line =
     (let t1 = takeWhile num_char line; r1 = dropWhile num_char line;
          s1 = takeWhile is_space r1; r2 = dropWhile is_space r1;
          t2 = takeWhile num_char r2; r3 = dropWhile num_char r2;
          s2 = takeWhile is_space r3; r4 = dropWhile is_space r3
      in t1 \<noteq> [] \<and> s1 \<noteq> [] \<and> t2 \<noteq> [] \<and> s2 \<noteq> [] \<and>
         (case r4 of [] \<Rightarrow> False | c # _ \<Rightarrow> num_char c))"

subsection \<open>Numbers\<close>

definition is_digit :: "char \<Rightarrow> bool" where
  "is_digit c = (c \<in> set ''0123456789'')"

definition digit_value :: "char \<Rightarrow> nat" where
  "digit_value c = of_char c - 48"

definition digits_value :: "string \<Rightarrow> nat" where
  "digits_value ds = foldl (\<lambda>acc c. 10 * acc + digit_value c) 0 ds"

definition strip_sign :: "string \<Rightarrow> int \<times> string" where
  "strip_sign s =
     (case s of
        [] \<Rightarrow> (1, [])
      | c # r \<Rightarrow> if c = CHR ''+'' then (1, r) else if c = CHR ''-'' then (- 1, r) else (1, s))"

text \<open>
  \<^verbatim>\<open>int(token)\<close> on a token without whitespace: an optional sign and decimal digits,
  with single underscores allowed between digits. \<open>None\<close> stands for the
  \<^verbatim>\<open>ValueError\<close>.
\<close>

fun underscores_ok :: "string \<Rightarrow> bool" where
  "underscores_ok [] = True"
| "underscores_ok [c] = is_digit c"
| "underscores_ok (c # d # r) =
     (if c = CHR ''_'' then is_digit d \<and> underscores_ok (d # r)
      else is_digit c \<and> underscores_ok (d # r))"

definition py_int :: "string \<Rightarrow> int option" where
  "py_int s =
     (let (sgn, body) = strip_sign s in
      if body \<noteq> [] \<and> is_digit (hd body) \<and> underscores_ok body
      then Some (sgn * int (digits_value (filter is_digit body)))
      else None)"

text \<open>
  \<^verbatim>\<open>float(token)\<close> is a parameter of the parser, a function from tokens to values
  with \<open>None\<close> for the \<^verbatim>\<open>ValueError\<close>. \<open>decimal_float\<close> is the conversion on the
  literals a cube file is made of: an optional sign, digits with an optional fraction,
  and an optional exponent. Python's \<^verbatim>\<open>float\<close> also accepts underscores and the
  spellings of infinity and not-a-number, which are no real numbers.
\<close>

definition decimal_float :: "string \<Rightarrow> real option" where
  "decimal_float s =
     (let (sgn, r) = strip_sign s;
          mant = takeWhile (\<lambda>c. c \<noteq> CHR ''e'' \<and> c \<noteq> CHR ''E'') r;
          ex = dropWhile (\<lambda>c. c \<noteq> CHR ''e'' \<and> c \<noteq> CHR ''E'') r;
          ip = takeWhile (\<lambda>c. c \<noteq> CHR ''.'') mant;
          fp = drop 1 (dropWhile (\<lambda>c. c \<noteq> CHR ''.'') mant);
          m = real_of_int sgn * real (digits_value (ip @ fp)) / 10 ^ length fp
      in if ip @ fp = [] \<or> \<not> list_all is_digit (ip @ fp) then None
         else if ex = [] then Some m
         else (let (esgn, ed) = strip_sign (drop 1 ex) in
               if ed = [] \<or> \<not> list_all is_digit ed then None
               else if esgn < 0 then Some (m / 10 ^ digits_value ed)
               else Some (m * 10 ^ digits_value ed)))"

subsection \<open>The parser\<close>

text \<open>
  \<^verbatim>\<open>parse_cube_file\<close> (the same code in both engines), on the lines
  \<^verbatim>\<open>f.readlines()\<close> returned. The loop carries \<open>lut_size\<close> and \<open>lut_data\<close>; a failed
  conversion leaves the loop with the exception.
\<close>

fun parse_lines ::
  "(string \<Rightarrow> 'v option) \<Rightarrow> string list \<Rightarrow> int \<Rightarrow> 'v list list \<Rightarrow> error + int \<times> 'v list list"
where
  "parse_lines to_float [] lut_size lut_data = Inr (lut_size, lut_data)"
| "parse_lines to_float (l # ls) lut_size lut_data =
     (let line = strip l in
      if line = [] \<or> startswith line ''#'' then parse_lines to_float ls lut_size lut_data
      else if startswith line ''LUT_3D_SIZE'' then
        (case py_int (last (split line)) of
           None \<Rightarrow> Inl BadInteger
         | Some n \<Rightarrow> parse_lines to_float ls n lut_data)
      else if row_pattern_matches line then
        (case those (map to_float (split line)) of
           None \<Rightarrow> Inl BadFloat
         | Some row \<Rightarrow> parse_lines to_float ls lut_size (lut_data @ [row]))
      else parse_lines to_float ls lut_size lut_data)"

text \<open>
  \<^verbatim>\<open>np.array(lut_data).reshape((n, n, n, 3))\<close>: the rows must have one length (a ragged
  list is refused by numpy 1.24 and later), no dimension may be negative and the number of
  values must be \<open>3 * n^3\<close>. The table is kept as the flat list of its values in file
  order; \<open>node\<close> reads entry \<open>[i, j, k, c]\<close> of the reshaped array.
\<close>

definition uniform_rows :: "'v list list \<Rightarrow> bool" where
  "uniform_rows rows = list_all (\<lambda>r. length r = length (hd rows)) rows"

definition np_reshape :: "'v list list \<Rightarrow> int \<Rightarrow> error + 'v list" where
  "np_reshape rows n =
     (if \<not> uniform_rows rows then Inl BadShape
      else if n < 0 \<or> int (length (concat rows)) \<noteq> 3 * n ^ 3 then Inl BadShape
      else Inr (concat rows))"

definition node :: "'v list \<Rightarrow> nat \<Rightarrow> nat \<Rightarrow> nat \<Rightarrow> nat \<Rightarrow> nat \<Rightarrow> 'v" where
  "node table n i j k c = table ! (((i * n + j) * n + k) * 3 + c)"

definition parse_cube_file ::
  "(string \<Rightarrow> 'v option) \<Rightarrow> string list \<Rightarrow> error + 'v list \<times> int" where
  "parse_cube_file to_float lines =
     (case parse_lines to_float lines 0 [] of
        Inl e \<Rightarrow> Inl e
      | Inr (lut_size, lut_data) \<Rightarrow>
          if lut_size = 0 \<or> lut_data = [] then Inl InvalidCubeFile
          else (case np_reshape lut_data lut_size of
                  Inl e \<Rightarrow> Inl e
                | Inr table \<Rightarrow> Inr (table, lut_size)))"

text \<open>
  The specification's reading of a file: the lines that count, the size lines among them
  with their integers, and the data rows with their values, in file order.
\<close>

definition significant_lines :: "string list \<Rightarrow> string list" where
  "significant_lines lines =
     filter (\<lambda>line. line \<noteq> [] \<and> \<not> startswith line ''#'') (map strip lines)"

definition size_lines :: "string list \<Rightarrow> string list" where
  "size_lines lines = filter (\<lambda>line. startswith line ''LUT_3D_SIZE'') (significant_lines lines)"

definition data_lines :: "string list \<Rightarrow> string list" where
  "data_lines lines =
     filter (\<lambda>line. \<not> startswith line ''LUT_3D_SIZE'' \<and> row_pattern_matches line)
            (significant_lines lines)"

definition declared_sizes :: "string list \<Rightarrow> int option list" where
  "declared_sizes lines = map (\<lambda>line. py_int (last (split line))) (size_lines lines)"

definition declared_rows :: "(string \<Rightarrow> 'v option) \<Rightarrow> string list \<Rightarrow> 'v list option list" where
  "declared_rows to_float lines = map (\<lambda>line. those (map to_float (split line))) (data_lines lines)"

definition last_size :: "int option list \<Rightarrow> int" where
  "last_size sizes = (case sizes of [] \<Rightarrow> 0 | _ \<Rightarrow> the (last sizes))"

definition size_after :: "int \<Rightarrow> int option list \<Rightarrow> int" where
  "size_after n sizes = (case sizes of [] \<Rightarrow> n | _ \<Rightarrow> the (last sizes))"

text \<open>Two test files: a complete cube of size 2, and a size line with a single row.\<close>

definition cube2_lines :: "string list" where
  "cube2_lines =
     [''# a cube of size 2'' @ [CHR 0x0A], [CHR 0x0A], ''LUT_3D_SIZE 2'' @ [CHR 0x0A],
      ''0 0 0'', ''1.0 0.25 0'', ''0 1 0.5'', ''1 1 0'',
      ''0 0 1'', ''1 0 1'', ''0.5 1e0 1'', ''  1 1 75e-2 '' @ [CHR 0x0A]]"

definition short_lines :: "string list" where
  "short_lines = [''LUT_3D_SIZE 2'', ''0 0 0'']"

section \<open>Applying a look-up table\<close>

text \<open>
  Modelled from the spec: the trilinear interpolator. The code builds it with the
  library call \<^verbatim>\<open>RegularGridInterpolator((grid_points, grid_points, grid_points),
  lut_table)\<close>, whose source is outside the repository. Following section 4.2 and the
  library's linear method: on each axis the cell index is the number of grid points below
  the coordinate, less one, kept between 0 and \<open>n - 2\<close>; the fractional offset is the
  distance from that grid point divided by the cell width; the value is the sum over the
  8 corners of the cell of the node value times the product of the three weights, the
  weight of the lower corner being one minus the offset and that of the upper corner the
  offset. A coordinate outside the grid is refused. A grid of one point has no cell; the
  index is 0 with offset 0 there.
\<close>

definition np_linspace :: "nat \<Rightarrow> real list" where
  "np_linspace n = map (\<lambda>k. if n = 1 then 0 else real k / real (n - 1)) [0..<n]"

definition find_index :: "real list \<Rightarrow> real \<Rightarrow> nat \<times> real" where
  "find_index grid x =
     (if length grid = 1 then (0, 0)
      else let i = min (length (filter (\<lambda>g. g < x) grid) - 1) (length grid - 2)
           in (i, (x - grid ! i) / (grid ! (i + 1) - grid ! i)))"

definition in_bounds :: "real list \<Rightarrow> real \<Rightarrow> bool" where
  "in_bounds grid x = (hd grid \<le> x \<and> x \<le> last grid)"

definition trilinear :: "real list \<Rightarrow> nat \<Rightarrow> real \<times> real \<times> real \<Rightarrow> error + real \<times> real \<times> real" where
  "trilinear table n xi =
     (let grid = np_linspace n; (r, g, b) = xi in
      if n = 0 then Inl BadShape
      else if \<not> (in_bounds grid r \<and> in_bounds grid g \<and> in_bounds grid b) then Inl OutOfBounds
      else
        let (i, u) = find_index grid r; (j, v) = find_index grid g; (k, w) = find_index grid b;
            corners = [(a, wa, b, wb, c, wc).
                         (a, wa) \<leftarrow> [(i, 1 - u), (i + 1, u)],
                         (b, wb) \<leftarrow> [(j, 1 - v), (j + 1, v)],
                         (c, wc) \<leftarrow> [(k, 1 - w), (k + 1, w)]];
            val = (\<lambda>ch. sum_list (map (\<lambda>(a, wa, b, wb, c, wc).
                                          node table n a b c ch * (wa * wb * wc)) corners))
        in Inr (val 0, val 1, val 2))"




text \<open>The table of the test cube of size 2.\<close>

definition cube2_table :: "real list" where
  "cube2_table =
     [0, 0, 0, 1, 1 / 4, 0, 0, 1, 1 / 2, 1, 1, 0, 0, 0, 1, 1, 0, 1, 1 / 2, 1, 1, 1, 1, 3 / 4]"

section \<open>The chain executor\<close>














section \<open>Effects computed by library calls\<close>

text \<open>
  The remaining parameterized effects of the image engine pick their parameter from the
  level table and hand it to the imaging library. The library operation is a parameter
  of the model: \<open>enhance factor img\<close> stands for
  \<^verbatim>\<open>ImageEnhance.Color(img).enhance(factor)\<close> or its contrast counterpart,
  \<open>resize img size resample\<close> for \<^verbatim>\<open>img.resize(size, resample)\<close>, \<open>edges frame\<close> for
  the normalized gradient magnitude of the frame, and \<open>median_quantize size img\<close> for
  the median filter followed by the quantization to 64 colours.
\<close>

definition saturation_level_map :: "(string \<times> real) list" where
  "saturation_level_map = [(''low'', 13/10), (''medium'', 17/10), (''high'', 22/10)]"

definition saturation_factor :: "string \<Rightarrow> real" where
  "saturation_factor level = dict_get saturation_level_map level (17/10)"

definition apply_color_saturation :: "(real \<Rightarrow> 'img \<Rightarrow> 'img) \<Rightarrow> 'img \<Rightarrow> string \<Rightarrow> 'img" where
  "apply_color_saturation enhance img level = enhance (saturation_factor level) img"

definition contrast_map :: "(string \<times> real) list" where
  "contrast_map = [(''low'', 12/10), (''medium'', 15/10), (''high'', 18/10)]"

definition contrast_factor :: "string \<Rightarrow> real" where
  "contrast_factor level = dict_get contrast_map level (15/10)"

definition apply_contrast_brightness :: "(real \<Rightarrow> 'img \<Rightarrow> 'img) \<Rightarrow> 'img \<Rightarrow> string \<Rightarrow> 'img" where
  "apply_contrast_brightness enhance img level = enhance (contrast_factor level) img"

datatype resampling = BILINEAR | NEAREST

definition pixelated_level_map :: "(string \<times> int) list" where
  "pixelated_level_map = [(''low'', 95), (''medium'', 85), (''high'', 75)]"

definition pixelated_size :: "string \<Rightarrow> int" where
  "pixelated_size level = dict_get pixelated_level_map level 85"

definition apply_pixelated ::
  "('img \<Rightarrow> nat \<times> nat) \<Rightarrow> ('img \<Rightarrow> int \<times> int \<Rightarrow> resampling \<Rightarrow> error + 'img) \<Rightarrow>
   'img \<Rightarrow> string \<Rightarrow> error + 'img" where
  "apply_pixelated size_of resize img level =
     (let pixel_size = pixelated_size level; (w, h) = size_of img in
      if w = 0 then Inl ZeroDivisionError
      else (case resize img (pixel_size, \<lfloor>real_of_int pixel_size * real h / real w\<rfloor>) BILINEAR of
              Inl e \<Rightarrow> Inl e
            | Inr img_small \<Rightarrow> resize img_small (int w, int h) NEAREST))"

definition neon_level_map :: "(string \<times> real) list" where
  "neon_level_map = [(''low'', 80), (''medium'', 50), (''high'', 30)]"

definition neon_threshold :: "string \<Rightarrow> real" where
  "neon_threshold level = dict_get neon_level_map level 50"

definition neon_color :: pixel where
  "neon_color = (0, 255, 255)"

definition apply_neon_glow :: "(frame \<Rightarrow> nat \<Rightarrow> nat \<Rightarrow> real) \<Rightarrow> frame \<Rightarrow> string \<Rightarrow> frame" where
  "apply_neon_glow edges img level =
     (let threshold = neon_threshold level
      in map (\<lambda>(y, row). map (\<lambda>(x, p). if edges img y x > threshold then neon_color else black)
                               (enumerate 0 row))
             (enumerate 0 img))"

definition cartoon_level_map :: "(string \<times> int) list" where
  "cartoon_level_map = [(''low'', 5), (''medium'', 15), (''high'', 25)]"

definition cartoon_filter_size :: "string \<Rightarrow> int" where
  "cartoon_filter_size level = dict_get cartoon_level_map level 15"

definition apply_cartoon_painterly :: "(int \<Rightarrow> 'img \<Rightarrow> 'img) \<Rightarrow> 'img \<Rightarrow> string \<Rightarrow> 'img" where
  "apply_cartoon_painterly median_quantize img level =
     median_quantize (cartoon_filter_size level) img"

section \<open>Level tables of the video engine\<close>

text \<open>
  The video engine's methods read the level in the same way and pass the parameter to a
  clip transformation of the video library, a parameter of the model. Saturation,
  Chromatic Aberration, Pixelated Effect, Film Grain, Neon Glow, Cartoon / Painterly and
  Vignette have the tables of the image engine above; the tables below differ or exist
  in the video engine only.
\<close>

definition ken_burns_level_map :: "(string \<times> real) list" where
  "ken_burns_level_map = [(''low'', 1), (''medium'', 125/100), (''high'', 15/10)]"

definition ken_burns_zoom :: "string \<Rightarrow> real" where
  "ken_burns_zoom level = dict_get ken_burns_level_map level (125/100)"

definition apply_ken_burns :: "(real \<Rightarrow> 'clip \<Rightarrow> 'clip) \<Rightarrow> 'clip \<Rightarrow> string \<Rightarrow> 'clip" where
  "apply_ken_burns zoom_effect clip level =
     (let zoom_factor = ken_burns_zoom level
      in if zoom_factor = 1 then clip else zoom_effect zoom_factor clip)"

definition video_contrast_map :: "(string \<times> real) list" where
  "video_contrast_map = [(''low'', 2/10), (''medium'', 6/10), (''high'', 1)]"

definition video_contrast_value :: "string \<Rightarrow> real" where
  "video_contrast_value level = dict_get video_contrast_map level (6/10)"

definition speed_level_map :: "(string \<times> real) list" where
  "speed_level_map = [(''low'', 125/100), (''medium'', 15/10), (''high'', 2)]"

definition speed_factor :: "string \<Rightarrow> real" where
  "speed_factor level = dict_get speed_level_map level (15/10)"

definition video_rotate_level_map :: "(string \<times> real) list" where
  "video_rotate_level_map = [(''low'', - 15), (''medium'', - 45), (''high'', - 90)]"

definition video_rotate_angle :: "string \<Rightarrow> real" where
  "video_rotate_angle level = dict_get video_rotate_level_map level (- 90)"

definition rolling_shutter_level_map :: "(string \<times> real) list" where
  "rolling_shutter_level_map = [(''low'', 5), (''medium'', 12), (''high'', 20)]"

definition rolling_shutter_intensity :: "string \<Rightarrow> real" where
  "rolling_shutter_intensity level = dict_get rolling_shutter_level_map level 12"

definition fade_level_map :: "(string \<times> real) list" where
  "fade_level_map = [(''low'', 1), (''medium'', 15/10), (''high'', 2)]"

definition fade_duration :: "string \<Rightarrow> real" where
  "fade_duration level = dict_get fade_level_map level (15/10)"

text \<open>
  \<open>clip.fx(f, parameter)\<close> and \<open>clip.fl_image(effect)\<close> with the parameter read from the
  level: the methods for Saturation, Contrast, Speed Control, Rotate and Rolling Shutter,
  and Fade In/Out, which applies two transformations with the same duration.
\<close>

definition video_apply_color_saturation :: "(real \<Rightarrow> 'clip \<Rightarrow> 'clip) \<Rightarrow> 'clip \<Rightarrow> string \<Rightarrow> 'clip" where
  "video_apply_color_saturation colorx clip level = colorx (saturation_factor level) clip"

definition video_apply_contrast_brightness :: "(real \<Rightarrow> 'clip \<Rightarrow> 'clip) \<Rightarrow> 'clip \<Rightarrow> string \<Rightarrow> 'clip" where
  "video_apply_contrast_brightness lum_contrast clip level =
     lum_contrast (video_contrast_value level) clip"

definition apply_speed_control :: "(real \<Rightarrow> 'clip \<Rightarrow> 'clip) \<Rightarrow> 'clip \<Rightarrow> string \<Rightarrow> 'clip" where
  "apply_speed_control speedx clip level = speedx (speed_factor level) clip"

definition video_apply_rotate :: "(real \<Rightarrow> 'clip \<Rightarrow> 'clip) \<Rightarrow> 'clip \<Rightarrow> string \<Rightarrow> 'clip" where
  "video_apply_rotate rotate_fx clip level = rotate_fx (video_rotate_angle level) clip"

definition apply_rolling_shutter :: "(real \<Rightarrow> 'clip \<Rightarrow> 'clip) \<Rightarrow> 'clip \<Rightarrow> string \<Rightarrow> 'clip" where
  "apply_rolling_shutter wobble clip level = wobble (rolling_shutter_intensity level) clip"

definition apply_fade_in_out ::
  "(real \<Rightarrow> 'clip \<Rightarrow> 'clip) \<Rightarrow> (real \<Rightarrow> 'clip \<Rightarrow> 'clip) \<Rightarrow> 'clip \<Rightarrow> string \<Rightarrow> 'clip" where
  "apply_fade_in_out fadein fadeout clip level =
     (let duration = fade_duration level in fadeout duration (fadein duration clip))"

definition known_levels :: "string set" where
  "known_levels = {''low'', ''medium'', ''high''}"


section \<open>Properties\<close>

subsection \<open>Rolling\<close>

lemma length_np_roll: "length (np_roll k xs) = length xs"
  by (auto simp: np_roll_def Let_def)

lemma np_roll_rotate:
  assumes "xs \<noteq> []"
  shows "np_roll k xs = rotate (nat ((- k) mod int (length xs))) xs"
proof (cases "k mod int (length xs) = 0")
  case True
  then have "(- k) mod int (length xs) = 0"
    by (simp add: zmod_zminus1_eq_if)
  with True show ?thesis
    by (simp add: np_roll_def Let_def)
next
  case False
  let ?n = "length xs"
  let ?s = "nat (k mod int ?n)"
  have n: "0 < ?n" using assms by simp
  have "0 \<le> k mod int ?n" "k mod int ?n < int ?n"
    using n by simp_all
  then have s: "?s < ?n" "0 < ?s"
    using False by linarith+
  have "(- k) mod int ?n = int ?n - k mod int ?n"
    using False by (simp add: zmod_zminus1_eq_if)
  then have m: "nat ((- k) mod int ?n) = ?n - ?s"
    using s by (simp add: nat_diff_distrib')
  have "(?n - ?s) mod ?n = ?n - ?s"
    using s by simp
  then have "rotate (?n - ?s) xs = drop (?n - ?s) xs @ take (?n - ?s) xs"
    by (simp add: rotate_drop_take)
  with m show ?thesis
    using assms by (simp add: np_roll_def Let_def)
qed

lemma nth_np_roll:
  assumes "x < length xs"
  shows "np_roll k xs ! x = xs ! nat ((int x - k) mod int (length xs))"
proof -
  let ?n = "length xs"
  have ne: "xs \<noteq> []" using assms by auto
  have n: "0 < int ?n" using ne by simp
  have "np_roll k xs ! x = xs ! ((nat ((- k) mod int ?n) + x) mod ?n)"
    using assms by (simp add: np_roll_rotate [OF ne] nth_rotate)
  also have "(nat ((- k) mod int ?n) + x) mod ?n = nat ((int x - k) mod int ?n)"
  proof -
    have "int ((nat ((- k) mod int ?n) + x) mod ?n) = ((- k) mod int ?n + int x) mod int ?n"
      using n by (simp add: zmod_int)
    also have "\<dots> = (int x - k) mod int ?n"
      by (simp add: mod_add_left_eq)
    finally show ?thesis
      by linarith
  qed
  finally show ?thesis .
qed

subsection \<open>Chromatic Aberration\<close>

lemma np_stack_maps:
  "np_stack (map f1 xs) (map f2 xs) (map f3 xs) =
     map (\<lambda>row. stack_row (f1 row) (f2 row) (f3 row)) xs"
  by (induction xs) (simp_all add: np_stack_def)

lemma apply_chromatic_aberration_rows:
  "apply_chromatic_aberration f level = map (chromatic_row (chromatic_shift level)) f"
  by (simp add: apply_chromatic_aberration_def Let_def plane_def np_stack_maps chromatic_row_def)

lemma length_chromatic_row: "length (chromatic_row s row) = length row"
  by (simp add: chromatic_row_def stack_row_def length_np_roll)

lemma nth_chromatic_row:
  assumes "x < length row"
  shows "chromatic_row s row ! x =
           (red (row ! nat ((int x + s) mod int (length row))),
            green (row ! x),
            blue (row ! nat ((int x - s) mod int (length row))))"
proof -
  have n: "0 < int (length row)" using assms by linarith
  have a: "nat ((int x + s) mod int (length row)) < length row"
    using n by (simp add: nat_less_iff)
  have b: "nat ((int x - s) mod int (length row)) < length row"
    using n by (simp add: nat_less_iff)
  show ?thesis
    using assms a b
    by (simp add: chromatic_row_def stack_row_def length_np_roll nth_np_roll)
qed

lemma chromatic_shift_cases:
  "chromatic_shift level =
     (if level = ''low'' then 3 else if level = ''medium'' then 6
      else if level = ''high'' then 10 else 6)"
  by (simp add: chromatic_shift_def dict_get_def chromatic_level_map_def)

lemma red_chromatic_row_wrapped:
  assumes "0 \<le> s" "nat s \<le> length row"
  shows "drop (length row - nat s) (map red (chromatic_row s row)) = take (nat s) (map red row)"
proof -
  have "map red (chromatic_row s row) = np_roll (- s) (map red row)"
    by (rule nth_equalityI)
       (simp_all add: chromatic_row_def stack_row_def length_np_roll red_def)
  moreover have roll: "drop (length xs - nat s) (np_roll (- s) xs) = take (nat s) xs"
    if "nat s \<le> length xs" for xs :: "channel list"
  proof (cases "xs = []")
    case True
    then show ?thesis by (simp add: np_roll_def)
  next
    case False
    let ?n = "length xs"
    have n: "0 < ?n" using False by simp
    show ?thesis
    proof (cases "s = 0 \<or> nat s = ?n")
      case True
      then have "(- s) mod int ?n = 0"
        using assms(1) by (auto simp: zmod_zminus1_eq_if nat_eq_iff)
      then have "np_roll (- s) xs = xs"
        using n by (simp add: np_roll_def Let_def)
      with True show ?thesis by auto
    next
      case False
      then have s: "0 < s" "s < int ?n"
        using assms(1) that by linarith+
      then have "(- s) mod int ?n = int ?n - s"
        by (simp add: zmod_zminus1_eq_if)
      then have "nat ((- s) mod int ?n) = ?n - nat s"
        using s by (simp add: nat_diff_distrib')
      moreover have "?n - (?n - nat s) = nat s"
        using s by linarith
      ultimately have "np_roll (- s) xs = drop (nat s) xs @ take (nat s) xs"
        using n by (simp add: np_roll_def Let_def)
      then show ?thesis by simp
    qed
  qed
  from roll [of "map red row"] have
    "drop (length row - nat s) (np_roll (- s) (map red row)) = take (nat s) (map red row)"
    using assms(2) by simp
  ultimately show ?thesis
    by simp
qed

text \<open>
  C1 (as the code has it). At every pixel of the frame the output's red value is the
  input's red value \<open>s\<close> columns to the right and its blue value the input's blue value
  \<open>s\<close> columns to the left, the column index taken modulo the row width, where \<open>s\<close> is
  3, 6 or 10 for low, medium or high: the channels are rotated, not shifted with a black
  fill. In a row at least \<open>s\<close> wide, the rightmost \<open>s\<close> red values of the output are the
  leftmost \<open>s\<close> red values of the input.
\<close>

theorem chromatic_aberration_rolls:
  assumes "y < length f" and "x < length (f ! y)"
  shows "chromatic_shift ''low'' = 3 \<and> chromatic_shift ''medium'' = 6 \<and>
         chromatic_shift ''high'' = 10 \<and>
         red (apply_chromatic_aberration f level ! y ! x) =
           red (f ! y ! nat ((int x + chromatic_shift level) mod int (length (f ! y)))) \<and>
         blue (apply_chromatic_aberration f level ! y ! x) =
           blue (f ! y ! nat ((int x - chromatic_shift level) mod int (length (f ! y)))) \<and>
         (nat (chromatic_shift level) \<le> length (f ! y) \<longrightarrow>
            drop (length (f ! y) - nat (chromatic_shift level))
                 (map red (apply_chromatic_aberration f level ! y)) =
            take (nat (chromatic_shift level)) (map red (f ! y)))"
proof -
  have pos: "0 \<le> chromatic_shift level"
    by (simp add: chromatic_shift_cases)
  show ?thesis
    using assms pos
    by (simp add: apply_chromatic_aberration_rows nth_chromatic_row red_chromatic_row_wrapped
        red_def blue_def)
       (simp add: chromatic_shift_cases)
qed

lemma ramp_low:
  "apply_chromatic_aberration [ramp_row] ''low'' =
     [[(4, 0, 0), (5, 0, 0), (6, 0, 0), (7, 0, 0), (8, 0, 0), (1, 0, 0), (2, 0, 0), (3, 0, 0)]]"
  by (simp add: apply_chromatic_aberration_rows chromatic_shift_cases chromatic_row_def
      ramp_row_def np_roll_def stack_row_def red_def green_def blue_def)

theorem chromatic_aberration_rolls_witness:
  "red (apply_chromatic_aberration [ramp_row] ''low'' ! 0 ! 7) = 3 \<and>
   drop 5 (map red (apply_chromatic_aberration [ramp_row] ''low'' ! 0)) = [1, 2, 3]"
  using chromatic_aberration_rolls [of 0 "[ramp_row]" 7 "''low''"]
  by (simp add: ramp_row_def chromatic_shift_cases red_def eval_nat_numeral)

theorem chromatic_aberration_wraps_counterexample:
  "\<not> rightmost_red_black 3 (apply_chromatic_aberration [ramp_row] ''low'')"
  by (simp add: ramp_low rightmost_red_black_def red_def)

text \<open>
  C9. Chromatic Aberration leaves the green channel of every pixel as it was, at every
  level.
\<close>

theorem chromatic_green_unchanged:
  "plane green (apply_chromatic_aberration f level) = plane green f"
proof -
  have "map green (chromatic_row s row) = map green row" for s row
    by (rule nth_equalityI) (simp_all add: length_chromatic_row nth_chromatic_row green_def)
  then show ?thesis
    by (simp add: apply_chromatic_aberration_rows plane_def)
qed

subsection \<open>Invert Colors\<close>

text \<open>
  C7. Invert maps every channel value \<open>v\<close> of every pixel to \<open>255 - v\<close>, and inverting
  twice gives the frame back.
\<close>

theorem invert_involution:
  "apply_invert_colors f = map (map (\<lambda>p. (255 - red p, 255 - green p, 255 - blue p))) f \<and>
   unat (255 - v :: channel) = 255 - unat v \<and>
   apply_invert_colors (apply_invert_colors f) = f"
proof -
  have "invert_pixel (invert_pixel p) = p" for p
    by (simp add: invert_pixel_def red_def green_def blue_def)
  then have "apply_invert_colors (apply_invert_colors f) = f"
    by (simp add: apply_invert_colors_def map_idI)
  moreover have "unat (255 - v) = 255 - unat v"
  proof -
    have "unat v < 256" using unsigned_less [of v] by simp
    then have "v \<le> 255" by (simp add: word_le_nat_alt)
    then show ?thesis by (simp add: unat_sub)
  qed
  moreover have "invert_pixel = (\<lambda>p. (255 - red p, 255 - green p, 255 - blue p))"
    by (rule ext) (simp add: invert_pixel_def)
  ultimately show ?thesis
    by (simp add: apply_invert_colors_def)
qed

subsection \<open>Vignette\<close>

















subsection \<open>Glitch\<close>

lemma glitch_probability_cases:
  "glitch_probability level =
     (if level = ''low'' then 30 else if level = ''medium'' then 50
      else if level = ''high'' then 70 else 50)"
  by (simp add: glitch_probability_def dict_get_def glitch_level_map_def)

lemma image_glitch_always_triggers:
  assumes "sample a < 1"
  shows "sample a < glitch_probability level"
  using assms by (simp add: glitch_probability_cases)









text \<open>
  C3, at the input where the image engine leaves the specification: one attempt, level
  low, sample 0.5. The specification's test \<open>0.5 < 0.3\<close> fails, so the frame should stay
  as it is; the code compares the sample with 30, the attempt triggers and the row is
  rolled by one column with the vacated column zeroed.
\<close>

theorem image_glitch_triggers_at_half:
  "\<not> spec_glitch_triggers ''low'' (1/2) \<and>
   apply_glitch [\<lparr>sample = 1/2, strip_y = 0, displacement = 1\<rparr>] [ramp_row] ''low'' =
     Inr [[(0, 0, 0), (1, 0, 0), (2, 0, 0), (3, 0, 0), (4, 0, 0), (5, 0, 0), (6, 0, 0),
           (7, 0, 0)]] \<and>
   attempt_in_range 1 8 \<lparr>sample = 1/2, strip_y = 0, displacement = 1\<rparr>"
  by (simp add: spec_glitch_triggers_def dict_get_def apply_glitch_def glitch_probability_cases
      glitch_attempt_def glitch_strip_def glitch_row_def np_roll_def ramp_row_def black_def
      attempt_in_range_def enumerate_eq_zip)

subsection \<open>Shapes\<close>






lemma rotate_angle_cases:
  "rotate_angle level =
     (if level = ''low'' then 15 else if level = ''medium'' then 45
      else if level = ''high'' then 90 else 90)"
  by (simp add: rotate_angle_def dict_get_def rotate_level_map_def)











subsection \<open>Reading a cube file\<close>

lemma significant_lines_Cons:
  "significant_lines (l # ls) =
     (if strip l = [] \<or> startswith (strip l) ''#'' then significant_lines ls
      else strip l # significant_lines ls)"
  by (simp add: significant_lines_def)

lemma declared_Cons_skip:
  assumes "strip l = [] \<or> startswith (strip l) ''#''"
  shows "declared_sizes (l # ls) = declared_sizes ls"
    and "declared_rows fl (l # ls) = declared_rows fl ls"
  using assms
  by (simp_all add: declared_sizes_def declared_rows_def size_lines_def data_lines_def
      significant_lines_Cons)

lemma declared_Cons_size:
  assumes "\<not> (strip l = [] \<or> startswith (strip l) ''#'')"
    and "startswith (strip l) ''LUT_3D_SIZE''"
  shows "declared_sizes (l # ls) = py_int (last (split (strip l))) # declared_sizes ls"
    and "declared_rows fl (l # ls) = declared_rows fl ls"
  using assms
  by (simp_all add: declared_sizes_def declared_rows_def size_lines_def data_lines_def
      significant_lines_Cons)

lemma declared_Cons_row:
  assumes "\<not> (strip l = [] \<or> startswith (strip l) ''#'')"
    and "\<not> startswith (strip l) ''LUT_3D_SIZE''"
    and "row_pattern_matches (strip l)"
  shows "declared_sizes (l # ls) = declared_sizes ls"
    and "declared_rows fl (l # ls) = those (map fl (split (strip l))) # declared_rows fl ls"
  using assms
  by (simp_all add: declared_sizes_def declared_rows_def size_lines_def data_lines_def
      significant_lines_Cons)

lemma declared_Cons_other:
  assumes "\<not> (strip l = [] \<or> startswith (strip l) ''#'')"
    and "\<not> startswith (strip l) ''LUT_3D_SIZE''"
    and "\<not> row_pattern_matches (strip l)"
  shows "declared_sizes (l # ls) = declared_sizes ls"
    and "declared_rows fl (l # ls) = declared_rows fl ls"
  using assms
  by (simp_all add: declared_sizes_def declared_rows_def size_lines_def data_lines_def
      significant_lines_Cons)

lemma size_after_Cons: "size_after n (Some k # sizes) = size_after k sizes"
  by (cases sizes) (simp_all add: size_after_def)

lemma parse_lines_result:
  "parse_lines fl ls n rows = Inr (m, rs) \<longleftrightarrow>
     None \<notin> set (declared_sizes ls) \<and> None \<notin> set (declared_rows fl ls) \<and>
     m = size_after n (declared_sizes ls) \<and> rs = rows @ map the (declared_rows fl ls)"
proof (induction ls arbitrary: n rows)
  case Nil
  show ?case
    by (auto simp: declared_sizes_def declared_rows_def size_lines_def data_lines_def
        significant_lines_def size_after_def)
next
  case (Cons l ls)
  consider (skip) "strip l = [] \<or> startswith (strip l) ''#''"
    | (size) "\<not> (strip l = [] \<or> startswith (strip l) ''#'')"
        "startswith (strip l) ''LUT_3D_SIZE''"
    | (row) "\<not> (strip l = [] \<or> startswith (strip l) ''#'')"
        "\<not> startswith (strip l) ''LUT_3D_SIZE''" "row_pattern_matches (strip l)"
    | (other) "\<not> (strip l = [] \<or> startswith (strip l) ''#'')"
        "\<not> startswith (strip l) ''LUT_3D_SIZE''" "\<not> row_pattern_matches (strip l)"
    by blast
  then show ?case
  proof cases
    case skip
    then have "parse_lines fl (l # ls) n rows = parse_lines fl ls n rows"
      by (simp add: Let_def)
    then show ?thesis
      by (simp only: Cons.IH declared_Cons_skip [OF skip])
  next
    case size
    show ?thesis
    proof (cases "py_int (last (split (strip l)))")
      case None
      then have "parse_lines fl (l # ls) n rows = Inl BadInteger"
        using size by (simp add: Let_def)
      then show ?thesis
        using None by (simp add: declared_Cons_size [OF size])
    next
      case (Some k)
      then have "parse_lines fl (l # ls) n rows = parse_lines fl ls k rows"
        using size by (simp add: Let_def)
      then show ?thesis
        using Some by (simp add: Cons.IH declared_Cons_size [OF size] size_after_Cons)
    qed
  next
    case row
    show ?thesis
    proof (cases "those (map fl (split (strip l)))")
      case None
      then have "parse_lines fl (l # ls) n rows = Inl BadFloat"
        using row by (simp add: Let_def)
      then show ?thesis
        using None by (simp add: declared_Cons_row [OF row])
    next
      case (Some r)
      then have "parse_lines fl (l # ls) n rows = parse_lines fl ls n (rows @ [r])"
        using row by (simp add: Let_def)
      then show ?thesis
        using Some by (simp add: Cons.IH declared_Cons_row [OF row])
    qed
  next
    case other
    then have "parse_lines fl (l # ls) n rows = parse_lines fl ls n rows"
      by (simp add: Let_def)
    then show ?thesis
      by (simp only: Cons.IH declared_Cons_other [OF other])
  qed
qed

lemma parse_lines_error:
  "parse_lines fl ls n rows = Inl e \<Longrightarrow> e = BadInteger \<or> e = BadFloat"
proof (induction ls arbitrary: n rows)
  case Nil
  then show ?case by simp
next
  case (Cons l ls)
  then show ?case
    by (auto simp: Let_def split: if_splits option.splits)
qed

lemma last_size_after: "last_size sizes = size_after 0 sizes"
  by (simp add: last_size_def size_after_def)

lemma np_reshape_result:
  "np_reshape rows n = Inr table \<longleftrightarrow>
     uniform_rows rows \<and> 0 \<le> n \<and> int (length (concat rows)) = 3 * n ^ 3 \<and> table = concat rows"
  by (auto simp: np_reshape_def)

lemma np_reshape_error: "np_reshape rows n = Inl e \<Longrightarrow> e = BadShape"
  by (auto simp: np_reshape_def split: if_splits)

text \<open>
  C5 (as the code has it). Blank lines and lines starting with \<open>#\<close> are ignored, \<open>N\<close> is
  the integer of the last size line (0 when there is none) and every line matching the
  row pattern gives a data row, in file order. When all conversions succeed, the parser
  raises its own format error exactly when \<open>N\<close> is 0 or no row was collected. It returns a
  table exactly when, moreover, \<open>N\<close> is positive, the rows have one length and the
  collected values number \<open>3 * N^3\<close>; the table then holds the values in file order,
  read as \<open>N x N x N x 3\<close>. In every other case it fails, with a conversion error or with
  the reshape error, and a failure carries no table.
\<close>

theorem parse_cube_file_outcomes:
  "let sizes = declared_sizes lines; rows = declared_rows to_float lines;
       n = last_size sizes; vals = concat (map the rows)
   in (parse_cube_file to_float lines = Inl InvalidCubeFile \<longleftrightarrow>
         None \<notin> set sizes \<and> None \<notin> set rows \<and> (n = 0 \<or> rows = [])) \<and>
      (\<forall>table m. parse_cube_file to_float lines = Inr (table, m) \<longleftrightarrow>
         None \<notin> set sizes \<and> None \<notin> set rows \<and> m = n \<and> 0 < n \<and> rows \<noteq> [] \<and>
         uniform_rows (map the rows) \<and> int (length vals) = 3 * n ^ 3 \<and> table = vals) \<and>
      (\<forall>e. parse_cube_file to_float lines = Inl e \<longrightarrow>
         e = InvalidCubeFile \<or> e = BadInteger \<or> e = BadFloat \<or> e = BadShape)"
proof -
  let ?sizes = "declared_sizes lines" and ?rows = "declared_rows to_float lines"
  let ?n = "last_size ?sizes" and ?vals = "concat (map the ?rows)"
  let ?ok = "None \<notin> set ?sizes \<and> None \<notin> set ?rows"
  have loop: "parse_lines to_float lines 0 [] = Inr (m, rs) \<longleftrightarrow>
                ?ok \<and> m = ?n \<and> rs = map the ?rows" for m rs
    by (simp add: parse_lines_result last_size_after)
  have a: "parse_cube_file to_float lines = Inl InvalidCubeFile \<longleftrightarrow>
             ?ok \<and> (?n = 0 \<or> ?rows = [])"
  proof (cases "parse_lines to_float lines 0 []")
    case (Inl e)
    then have "\<not> ?ok"
      using loop by auto
    moreover have "e \<noteq> InvalidCubeFile"
      using parse_lines_error [OF Inl] by auto
    ultimately show ?thesis
      using Inl by (auto simp: parse_cube_file_def)
  next
    case (Inr r)
    obtain m rs where r: "r = (m, rs)" by (cases r)
    with Inr loop have ok: ?ok and m: "m = ?n" and rs: "rs = map the ?rows"
      by auto
    show ?thesis
      using Inr r ok m rs
      by (auto simp: parse_cube_file_def split: sum.splits dest: np_reshape_error)
  qed
  have b: "parse_cube_file to_float lines = Inr (table, m) \<longleftrightarrow>
             ?ok \<and> m = ?n \<and> 0 < ?n \<and> ?rows \<noteq> [] \<and> uniform_rows (map the ?rows) \<and>
             int (length ?vals) = 3 * ?n ^ 3 \<and> table = ?vals" for table m
  proof (cases "parse_lines to_float lines 0 []")
    case (Inl e)
    then have "\<not> ?ok"
      using loop by auto
    then show ?thesis
      using Inl by (auto simp: parse_cube_file_def)
  next
    case (Inr r)
    obtain k rs where r: "r = (k, rs)" by (cases r)
    with Inr loop have ok: ?ok and k: "k = ?n" and rs: "rs = map the ?rows"
      by auto
    have "parse_cube_file to_float lines = Inr (table, m) \<longleftrightarrow>
            \<not> (?n = 0 \<or> ?rows = []) \<and> np_reshape (map the ?rows) ?n = Inr table \<and> m = ?n"
      using Inr r k rs by (auto simp: parse_cube_file_def split: sum.splits)
    then show ?thesis
      using ok by (auto simp: np_reshape_result)
  qed
  have c: "e = InvalidCubeFile \<or> e = BadInteger \<or> e = BadFloat \<or> e = BadShape"
    if "parse_cube_file to_float lines = Inl e" for e
    using that parse_lines_error [of to_float lines 0 "[]"]
    by (auto simp: parse_cube_file_def split: sum.splits if_splits dest: np_reshape_error)
  show ?thesis
    unfolding Let_def using a b c by blast
qed

lemma cube2_parsed:
  "parse_cube_file decimal_float cube2_lines =
     Inr ([0, 0, 0, 1, 1 / 4, 0, 0, 1, 1 / 2, 1, 1, 0, 0, 0, 1, 1, 0, 1, 1 / 2, 1, 1, 1, 1, 3 / 4],
          2)"
  by code_simp

lemma short_parsed:
  "parse_lines decimal_float short_lines 0 [] = Inr (2, [[0, 0, 0]])"
  "parse_cube_file decimal_float short_lines = Inl BadShape"
  by code_simp+

theorem parse_cube_file_outcomes_witness:
  "last_size (declared_sizes cube2_lines) = 2 \<and>
   length (declared_rows decimal_float cube2_lines) = 8 \<and>
   concat (map the (declared_rows decimal_float cube2_lines)) =
     [0, 0, 0, 1, 1 / 4, 0, 0, 1, 1 / 2, 1, 1, 0, 0, 0, 1, 1, 0, 1, 1 / 2, 1, 1, 1, 1, 3 / 4] \<and>
   (\<exists>e. parse_cube_file decimal_float short_lines = Inl e \<and> e = BadShape)"
proof -
  have len: "length (declared_rows decimal_float cube2_lines) = 8"
    by code_simp
  from parse_cube_file_outcomes [of cube2_lines decimal_float] cube2_parsed
  have "last_size (declared_sizes cube2_lines) = 2 \<and>
        concat (map the (declared_rows decimal_float cube2_lines)) =
          [0, 0, 0, 1, 1 / 4, 0, 0, 1, 1 / 2, 1, 1, 0, 0, 0, 1, 1, 0, 1, 1 / 2, 1, 1, 1, 1, 3 / 4]"
    unfolding Let_def by metis
  moreover from parse_cube_file_outcomes [of short_lines decimal_float] short_parsed(2)
  have "\<exists>e. parse_cube_file decimal_float short_lines = Inl e \<and> e = BadShape"
    by simp
  ultimately show ?thesis
    using len by simp
qed

theorem parse_cube_file_short_counterexample:
  "parse_lines decimal_float short_lines 0 [] = Inr (2, [[0, 0, 0]]) \<and>
   (2 :: int) \<noteq> 0 \<and> [[0 :: real, 0, 0]] \<noteq> [] \<and>
   parse_cube_file decimal_float short_lines = Inl BadShape"
  using short_parsed by simp

subsection \<open>Interpolation\<close>

lemma length_np_linspace: "length (np_linspace n) = n"
  by (simp add: np_linspace_def)

lemma nth_np_linspace:
  assumes "2 \<le> n" "i < n"
  shows "np_linspace n ! i = real i / real (n - 1)"
  using assms by (simp add: np_linspace_def)

lemma count_below: "length (filter (\<lambda>k. k < i) [0..<n]) = min i n"
  by (induction n) auto

lemma points_below_node:
  assumes "2 \<le> n" "i < n"
  shows "length (filter (\<lambda>g. g < np_linspace n ! i) (np_linspace n)) = i"
proof -
  have d: "0 < real (n - 1)" using assms by simp
  have "real k / real (n - 1) < real i / real (n - 1) \<longleftrightarrow> k < i" for k
    using d by (simp add: divide_less_cancel)
  then have "filter (\<lambda>g. g < real i / real (n - 1)) (map (\<lambda>k. real k / real (n - 1)) [0..<n])
               = map (\<lambda>k. real k / real (n - 1)) (filter (\<lambda>k. k < i) [0..<n])"
    by (simp add: filter_map comp_def)
  moreover have "np_linspace n = map (\<lambda>k. real k / real (n - 1)) [0..<n]"
    using assms by (simp add: np_linspace_def)
  ultimately show ?thesis
    using assms by (simp add: nth_np_linspace count_below)
qed

lemma find_index_at_node:
  assumes "2 \<le> n" "i < n"
  shows "find_index (np_linspace n) (np_linspace n ! i) = (if i = 0 then (0, 0) else (i - 1, 1))"
proof (cases "i = 0")
  case True
  then show ?thesis
    using assms by (simp add: find_index_def length_np_linspace points_below_node Let_def)
next
  case False
  have d: "0 < real (n - 1)" using assms by simp
  have i: "min (i - 1) (n - 2) = i - 1" using assms by simp
  have "np_linspace n ! i - np_linspace n ! (i - 1) = 1 / real (n - 1)"
    using assms False by (simp add: nth_np_linspace of_nat_diff diff_divide_distrib [symmetric])
  then have "(np_linspace n ! i - np_linspace n ! (i - 1)) /
             (np_linspace n ! (i - 1 + 1) - np_linspace n ! (i - 1)) = 1"
    using False d by simp
  then show ?thesis
    using assms False i
    by (simp add: find_index_def length_np_linspace points_below_node Let_def)
qed

lemma in_bounds_node:
  assumes "2 \<le> n" "i < n"
  shows "in_bounds (np_linspace n) (np_linspace n ! i)"
proof -
  have ne: "np_linspace n \<noteq> []"
    using assms length_np_linspace [of n] by auto
  have "hd (np_linspace n) = np_linspace n ! 0" "last (np_linspace n) = np_linspace n ! (n - 1)"
    using ne by (simp_all add: hd_conv_nth last_conv_nth length_np_linspace)
  moreover have "real i \<le> real (n - 1)"
    using assms by simp
  ultimately show ?thesis
    using assms by (simp add: in_bounds_def nth_np_linspace divide_right_mono)
qed

text \<open>
  C8. For a table of size \<open>N\<close>, at least 2, whose grid is \<open>N\<close> evenly spaced points from
  0 to 1 on each axis, the trilinear interpolator evaluated at the grid node \<open>(i, j, k)\<close>
  returns the value stored at that node. The arithmetic is exact here, so the result is
  the stored triple itself.
\<close>

theorem trilinear_exact_at_nodes:
  assumes "2 \<le> n" and "i < n" and "j < n" and "k < n"
  shows "trilinear table n (np_linspace n ! i, np_linspace n ! j, np_linspace n ! k) =
           Inr (node table n i j k 0, node table n i j k 1, node table n i j k 2)"
proof -
  have n: "n \<noteq> 0" using assms(1) by simp
  have b: "in_bounds (np_linspace n) (np_linspace n ! i)"
    "in_bounds (np_linspace n) (np_linspace n ! j)"
    "in_bounds (np_linspace n) (np_linspace n ! k)"
    using assms by (simp_all add: in_bounds_node)
  have f: "find_index (np_linspace n) (np_linspace n ! i) = (if i = 0 then (0, 0) else (i - 1, 1))"
    "find_index (np_linspace n) (np_linspace n ! j) = (if j = 0 then (0, 0) else (j - 1, 1))"
    "find_index (np_linspace n) (np_linspace n ! k) = (if k = 0 then (0, 0) else (k - 1, 1))"
    using assms by (simp_all add: find_index_at_node)
  show ?thesis
    unfolding trilinear_def Let_def using n b
    by (simp add: f)
qed

theorem trilinear_exact_at_nodes_witness:
  "(2 :: nat) \<le> 2 \<and>
   trilinear cube2_table 2 (np_linspace 2 ! 0, np_linspace 2 ! 0, np_linspace 2 ! 0) =
     Inr (0, 0, 0) \<and>
   trilinear cube2_table 2 (np_linspace 2 ! 0, np_linspace 2 ! 0, np_linspace 2 ! 1) =
     Inr (1, 1 / 4, 0) \<and>
   trilinear cube2_table 2 (np_linspace 2 ! 0, np_linspace 2 ! 1, np_linspace 2 ! 0) =
     Inr (0, 1, 1 / 2) \<and>
   trilinear cube2_table 2 (np_linspace 2 ! 0, np_linspace 2 ! 1, np_linspace 2 ! 1) =
     Inr (1, 1, 0) \<and>
   trilinear cube2_table 2 (np_linspace 2 ! 1, np_linspace 2 ! 0, np_linspace 2 ! 0) =
     Inr (0, 0, 1) \<and>
   trilinear cube2_table 2 (np_linspace 2 ! 1, np_linspace 2 ! 0, np_linspace 2 ! 1) =
     Inr (1, 0, 1) \<and>
   trilinear cube2_table 2 (np_linspace 2 ! 1, np_linspace 2 ! 1, np_linspace 2 ! 0) =
     Inr (1 / 2, 1, 1) \<and>
   trilinear cube2_table 2 (np_linspace 2 ! 1, np_linspace 2 ! 1, np_linspace 2 ! 1) =
     Inr (1, 1, 3 / 4)"
  using
    trilinear_exact_at_nodes [of 2 0 0 0 cube2_table]
    trilinear_exact_at_nodes [of 2 0 0 1 cube2_table]
    trilinear_exact_at_nodes [of 2 0 1 0 cube2_table]
    trilinear_exact_at_nodes [of 2 0 1 1 cube2_table]
    trilinear_exact_at_nodes [of 2 1 0 0 cube2_table]
    trilinear_exact_at_nodes [of 2 1 0 1 cube2_table]
    trilinear_exact_at_nodes [of 2 1 1 0 cube2_table]
    trilinear_exact_at_nodes [of 2 1 1 1 cube2_table]
  by (simp add: node_def cube2_table_def)

subsection \<open>The chain executor\<close>









subsection \<open>Levels\<close>

lemma dict_get_unknown:
  assumes "level \<notin> fst ` set d"
  shows "dict_get d level dflt = dflt"
  using assms by (simp add: dict_get_def map_of_eq_None_iff [THEN iffD2])

lemma unknown_parameters:
  assumes "level \<notin> known_levels"
  shows "saturation_factor level = saturation_factor ''medium''"
    and "contrast_factor level = contrast_factor ''medium''"
    and "chromatic_shift level = chromatic_shift ''medium''"
    and "pixelated_size level = pixelated_size ''medium''"
    and "film_grain_strength level = film_grain_strength ''medium''"
    and "glitch_probability level = glitch_probability ''medium''"
    and "neon_threshold level = neon_threshold ''medium''"
    and "cartoon_filter_size level = cartoon_filter_size ''medium''"
    and "vignette_strength level = vignette_strength ''medium''"
    and "rotate_angle level = rotate_angle ''high''"
    and "ken_burns_zoom level = ken_burns_zoom ''medium''"
    and "video_contrast_value level = video_contrast_value ''medium''"
    and "speed_factor level = speed_factor ''medium''"
    and "video_rotate_angle level = video_rotate_angle ''high''"
    and "video_glitch_probability level = video_glitch_probability ''medium''"
    and "rolling_shutter_intensity level = rolling_shutter_intensity ''medium''"
    and "fade_duration level = fade_duration ''medium''"
  using assms
  by (simp_all add: known_levels_def dict_get_def
      saturation_factor_def saturation_level_map_def contrast_factor_def contrast_map_def
      chromatic_shift_def chromatic_level_map_def pixelated_size_def pixelated_level_map_def
      film_grain_strength_def film_grain_level_map_def glitch_probability_def glitch_level_map_def
      neon_threshold_def neon_level_map_def cartoon_filter_size_def cartoon_level_map_def
      vignette_strength_def vignette_level_map_def rotate_angle_def rotate_level_map_def
      ken_burns_zoom_def ken_burns_level_map_def video_contrast_value_def video_contrast_map_def
      speed_factor_def speed_level_map_def video_rotate_angle_def video_rotate_level_map_def
      video_glitch_probability_def video_glitch_level_map_def
      rolling_shutter_intensity_def rolling_shutter_level_map_def
      fade_duration_def fade_level_map_def)

text \<open>
  C10. For every parameterized effect, a level string outside low, medium and high selects
  the default parameter, and the effect returns what it returns at its default level:
  medium for every effect but Rotate, whose default is high (90 degrees). The model of an
  effect is a total function, so the unknown level raises nothing that the default level
  does not raise.
\<close>

theorem unknown_level_is_default:
  assumes "level \<notin> known_levels"
  shows "(\<forall>enhance img. apply_color_saturation enhance img level =
            apply_color_saturation enhance img ''medium'') \<and>
         (\<forall>enhance img. apply_contrast_brightness enhance img level =
            apply_contrast_brightness enhance img ''medium'') \<and>
         (\<forall>img. apply_chromatic_aberration img level = apply_chromatic_aberration img ''medium'') \<and>
         (\<forall>size_of resize img. apply_pixelated size_of resize img level =
            apply_pixelated size_of resize img ''medium'') \<and>
         (\<forall>noise img. apply_film_grain noise img level = apply_film_grain noise img ''medium'') \<and>
         (\<forall>attempts img. apply_glitch attempts img level = apply_glitch attempts img ''medium'') \<and>
         (\<forall>edges img. apply_neon_glow edges img level = apply_neon_glow edges img ''medium'') \<and>
         (\<forall>median_quantize img. apply_cartoon_painterly median_quantize img level =
            apply_cartoon_painterly median_quantize img ''medium'') \<and>
         (\<forall>img. apply_vignette img level = apply_vignette img ''medium'') \<and>
         (\<forall>resample_rotate img. apply_rotate resample_rotate img level =
            apply_rotate resample_rotate img ''high'') \<and>
         rotate_angle ''high'' = 90 \<and>
         (\<forall>zoom_effect clip. apply_ken_burns zoom_effect clip level =
            apply_ken_burns zoom_effect clip ''medium'') \<and>
         (\<forall>colorx clip. video_apply_color_saturation colorx clip level =
            video_apply_color_saturation colorx clip ''medium'') \<and>
         (\<forall>lum_contrast clip. video_apply_contrast_brightness lum_contrast clip level =
            video_apply_contrast_brightness lum_contrast clip ''medium'') \<and>
         (\<forall>speedx clip. apply_speed_control speedx clip level =
            apply_speed_control speedx clip ''medium'') \<and>
         (\<forall>rotate_fx clip. video_apply_rotate rotate_fx clip level =
            video_apply_rotate rotate_fx clip ''high'') \<and>
         (\<forall>a frame. video_glitch_effect a frame level = video_glitch_effect a frame ''medium'') \<and>
         (\<forall>wobble clip. apply_rolling_shutter wobble clip level =
            apply_rolling_shutter wobble clip ''medium'') \<and>
         (\<forall>fadein fadeout clip. apply_fade_in_out fadein fadeout clip level =
            apply_fade_in_out fadein fadeout clip ''medium'')"
proof -
  note p = unknown_parameters [OF assms]
  have high: "rotate_angle ''high'' = 90"
    by (simp add: rotate_angle_def dict_get_def rotate_level_map_def)
  show ?thesis
    unfolding apply_color_saturation_def apply_contrast_brightness_def
      apply_chromatic_aberration_def apply_pixelated_def apply_film_grain_def apply_glitch_def
      apply_neon_glow_def apply_cartoon_painterly_def apply_vignette_def apply_rotate_def
      apply_ken_burns_def video_apply_color_saturation_def video_apply_contrast_brightness_def
      apply_speed_control_def video_apply_rotate_def video_glitch_effect_def
      apply_rolling_shutter_def apply_fade_in_out_def
    by (simp only: p high) simp
qed

theorem unknown_level_is_default_witness:
  "''extreme'' \<notin> known_levels \<and>
   apply_chromatic_aberration [ramp_row] ''extreme'' =
     apply_chromatic_aberration [ramp_row] ''medium'' \<and>
   apply_vignette square_frame ''extreme'' = apply_vignette square_frame ''medium'' \<and>
   apply_rotate no_resample [ramp_row] ''extreme'' = apply_rotate no_resample [ramp_row] ''high'' \<and>
   height (apply_rotate no_resample [ramp_row] ''extreme'') = 8"
proof -
  have k: "''extreme'' \<notin> known_levels"
    by (simp add: known_levels_def)
  have h: "height (apply_rotate no_resample [ramp_row] ''high'') = 8"
    by (simp add: apply_rotate_def rotate_angle_cases rotate_90_def ramp_row_def height_def)
  note u = unknown_level_is_default [OF k]
  have c: "apply_chromatic_aberration [ramp_row] ''extreme'' =
           apply_chromatic_aberration [ramp_row] ''medium''"
    using u [THEN conjunct2, THEN conjunct2, THEN conjunct1] by simp
  have v: "apply_vignette square_frame ''extreme'' = apply_vignette square_frame ''medium''"
    using u [THEN conjunct2, THEN conjunct2, THEN conjunct2, THEN conjunct2, THEN conjunct2, THEN conjunct2, THEN conjunct2, THEN conjunct2, THEN conjunct1] by simp
  have r: "apply_rotate no_resample [ramp_row] ''extreme'' =
           apply_rotate no_resample [ramp_row] ''high''"
    using u [THEN conjunct2, THEN conjunct2, THEN conjunct2, THEN conjunct2, THEN conjunct2, THEN conjunct2, THEN conjunct2, THEN conjunct2, THEN conjunct2, THEN conjunct1] by simp
  from k c v r h show ?thesis
    by simp
qed



end
